theory Spec2Isabelle
  imports Complex_Main "HOL-Library.Char_ord"
begin

section \<open>Strings of the program\<close>

text \<open>
  A JavaScript string is modelled as a \<^typ>\<open>string\<close>; a \<^typ>\<open>char\<close> stands for the
  UTF-16 code unit of the same number (U+0000 to U+00FF), and \<open>length\<close> is the
  \<open>.length\<close> of the source. A value that may be \<open>undefined\<close> is an \<open>option\<close>.
\<close>

text \<open>\<open>!x\<close> for an option that is undefined or a string: undefined and the empty
  string are falsy, every other string is truthy.\<close>

definition falsy :: "string option \<Rightarrow> bool" where
  "falsy x = (case x of None \<Rightarrow> True | Some s \<Rightarrow> s = [])"

text \<open>\<open>RegExp.prototype.test\<close> for a pattern that is a single character class, without
  anchors or flags: the scan succeeds at the first character of the class.\<close>

fun regex_class_test :: "(char \<Rightarrow> bool) \<Rightarrow> string \<Rightarrow> bool" where
  "regex_class_test cls [] = False"
| "regex_class_test cls (c # cs) = (if cls c then True else regex_class_test cls cs)"

section \<open>Password policy (routes/authRouter.js, validatePassword)\<close>

text \<open>The character classes of the four patterns: \<open>[A-Z]\<close>, \<open>[a-z]\<close>, \<open>[0-9]\<close> are ranges
  of code units; the last class lists its members.\<close>

definition class_upper :: "char \<Rightarrow> bool" where
  "class_upper c = (CHR ''A'' \<le> c \<and> c \<le> CHR ''Z'')"

definition class_lower :: "char \<Rightarrow> bool" where
  "class_lower c = (CHR ''a'' \<le> c \<and> c \<le> CHR ''z'')"

definition class_digit :: "char \<Rightarrow> bool" where
  "class_digit c = (CHR ''0'' \<le> c \<and> c \<le> CHR ''9'')"

definition special_chars :: "string" where
  "special_chars = ''!@#$%^&*()_+-=[]{};'' @ [CHR 0x27] @ '':'' @ [CHR 0x22, CHR 0x5C] @ ''|,.<>/?''"

definition class_special :: "char \<Rightarrow> bool" where
  "class_special c = (c \<in> set special_chars)"

record password_validation =
  isValid :: bool
  message :: "string option"

definition validatePassword :: "string \<Rightarrow> password_validation" where
  "validatePassword password =
     (if length password < 8 then
        \<lparr>isValid = False, message = Some ''Password must be at least 8 characters long''\<rparr>
      else if \<not> regex_class_test class_upper password then
        \<lparr>isValid = False, message = Some ''Password must contain at least one uppercase letter''\<rparr>
      else if \<not> regex_class_test class_lower password then
        \<lparr>isValid = False, message = Some ''Password must contain at least one lowercase letter''\<rparr>
      else if \<not> regex_class_test class_digit password then
        \<lparr>isValid = False, message = Some ''Password must contain at least one number''\<rparr>
      else if \<not> regex_class_test class_special password then
        \<lparr>isValid = False, message = Some ''Password must contain at least one special character''\<rparr>
      else \<lparr>isValid = True, message = None\<rparr>)"

subsection \<open>The policy as the specification words it\<close>

text \<open>The five rules in the order of the specification, each with the reason reported
  when it is the first to fail. The letters and digits are written out, so that the
  ranges of the patterns are compared with them.\<close>

definition rule_length :: "string \<Rightarrow> bool" where
  "rule_length p = (8 \<le> length p)"

definition rule_upper :: "string \<Rightarrow> bool" where
  "rule_upper p = (\<exists>c \<in> set p. c \<in> set ''ABCDEFGHIJKLMNOPQRSTUVWXYZ'')"

definition rule_lower :: "string \<Rightarrow> bool" where
  "rule_lower p = (\<exists>c \<in> set p. c \<in> set ''abcdefghijklmnopqrstuvwxyz'')"

definition rule_digit :: "string \<Rightarrow> bool" where
  "rule_digit p = (\<exists>c \<in> set p. c \<in> set ''0123456789'')"

definition rule_special :: "string \<Rightarrow> bool" where
  "rule_special p = (\<exists>c \<in> set p. c \<in> set special_chars)"

definition policy_rules :: "((string \<Rightarrow> bool) \<times> string) list" where
  "policy_rules =
     [(rule_length, ''Password must be at least 8 characters long''),
      (rule_upper, ''Password must contain at least one uppercase letter''),
      (rule_lower, ''Password must contain at least one lowercase letter''),
      (rule_digit, ''Password must contain at least one number''),
      (rule_special, ''Password must contain at least one special character'')]"

definition first_failure :: "string \<Rightarrow> string option" where
  "first_failure p = map_option snd (find (\<lambda>r. \<not> fst r p) policy_rules)"

section \<open>Values exchanged with the libraries\<close>

text \<open>JSON values as the handlers build them; a \<open>Date\<close> is the instant it denotes,
  an object keeps its keys in the order written.\<close>

datatype json =
    JBool bool
  | JStr string
  | JNum nat
  | JDate nat
  | JObj "(string \<times> json) list"

type_synonym payload = "(string \<times> json) list"

text \<open>\<open>res.status(n).json(obj)\<close>; a handler that does not set the status answers 200.\<close>

record response =
  status :: nat
  body :: "(string \<times> json) list"

text \<open>A thrown value, with the properties the catch blocks read: \<open>error.name\<close>,
  \<open>error.code\<close> and the messages of \<open>Object.values(error.errors)\<close>.\<close>

record js_error =
  err_name :: string
  err_message :: string
  err_code :: "nat option"
  err_errors :: "string list"

text \<open>\<open>new Error(msg)\<close>.\<close>

definition Error :: "string \<Rightarrow> js_error" where
  "Error msg = \<lparr>err_name = ''Error'', err_message = msg, err_code = None, err_errors = []\<rparr>"

text \<open>The \<open>expiresIn\<close> option: a number of seconds or a time span such as \<open>"24h"\<close>.\<close>

datatype expires = Seconds nat | Timespan string

text \<open>\<open>new TypeError(msg)\<close>, as the language throws it.\<close>

definition TypeError :: "string \<Rightarrow> js_error" where
  "TypeError msg =
     \<lparr>err_name = ''TypeError'', err_message = msg, err_code = None, err_errors = []\<rparr>"

text \<open>A number of the language other than NaN (JSON has none): a finite value, or an
  infinity, which \<open>JSON.parse\<close> gives for a literal beyond the range. Minus zero is
  zero: nothing the handlers do tells them apart.\<close>

datatype number = Finite real | PosInfinity | NegInfinity

text \<open>What a field of \<open>req.body\<close> holds: undefined when the body lacks the field,
  otherwise the value \<open>JSON.parse\<close> built, of any kind. An object lists its own
  properties, each key once.\<close>

datatype jvalue =
    VUndefined
  | VNull
  | VBool bool
  | VNum number
  | VStr string
  | VArr "jvalue list"
  | VObj "(string \<times> jvalue) list"

text \<open>The imported modules are parameters of the handlers: each function returns
  \<open>Inl\<close> of the value it throws. \<open>jwt.sign(payload, secret, {expiresIn})\<close> and
  \<open>jwt.verify(token, secret)\<close>; \<open>bcrypt.hash(password, rounds)\<close> and
  \<open>bcrypt.compare(password, hash)\<close>, whose password is whatever the request holds.\<close>

record jwt_lib =
  jwt_sign :: "payload \<Rightarrow> string \<Rightarrow> expires \<Rightarrow> js_error + string"
  jwt_verify :: "string \<Rightarrow> string \<Rightarrow> js_error + payload"

record bcrypt_lib =
  bcrypt_hash :: "jvalue \<Rightarrow> nat \<Rightarrow> js_error + string"
  bcrypt_compare :: "jvalue \<Rightarrow> string \<Rightarrow> js_error + bool"

text \<open>The two conversions between numbers and strings of the language are floating-point
  algorithms and are parameters as well: \<open>Number::toString\<close>, and \<open>StringToNumber\<close>,
  which gives no number (NaN) for a string that is not a numeric literal.\<close>

record number_lib =
  number_toString :: "number \<Rightarrow> string"
  string_toNumber :: "string \<Rightarrow> number option"

section \<open>String methods\<close>

text \<open>\<open>s.split(sep)\<close> for a separator of one character: the pieces between the
  separators, empty pieces included; the empty string gives one empty piece.\<close>

fun js_split :: "char \<Rightarrow> string \<Rightarrow> string list" where
  "js_split sep [] = [[]]"
| "js_split sep (c # cs) =
     (if c = sep then [] # js_split sep cs
      else (case js_split sep cs of [] \<Rightarrow> [[c]] | p # ps \<Rightarrow> (c # p) # ps))"

text \<open>\<open>xs.join(sep)\<close>.\<close>

fun js_join :: "string \<Rightarrow> string list \<Rightarrow> string" where
  "js_join sep [] = []"
| "js_join sep [x] = x"
| "js_join sep (x # y # ys) = x @ sep @ js_join sep (y # ys)"

text \<open>\<open>s.toLowerCase()\<close> on code units below 256: the letters \<open>A\<close> to \<open>Z\<close> and the
  capital letters U+00C0 to U+00DE (but the sign U+00D7) move up by 32.\<close>

definition toLowerCase_char :: "char \<Rightarrow> char" where
  "toLowerCase_char c =
     (let n = (of_char c :: nat) in
      if (65 \<le> n \<and> n \<le> 90) \<or> (192 \<le> n \<and> n \<le> 222 \<and> n \<noteq> 215)
      then char_of (n + 32) else c)"

definition toLowerCase :: "string \<Rightarrow> string" where
  "toLowerCase s = map toLowerCase_char s"

text \<open>\<open>s.trim()\<close>: the white space and line terminators of the language below 256 are
  tab, line feed, vertical tab, form feed, carriage return, space and no-break space.\<close>

definition is_white :: "char \<Rightarrow> bool" where
  "is_white c = ((of_char c :: nat) \<in> {9, 10, 11, 12, 13, 32, 160})"

definition trim :: "string \<Rightarrow> string" where
  "trim s = rev (dropWhile is_white (rev (dropWhile is_white s)))"

section \<open>Operations of the language on the values of a request\<close>

text \<open>\<open>!v\<close>: undefined, null, false, zero and the empty string are falsy; every
  array and every object is truthy.\<close>

fun falsy_value :: "jvalue \<Rightarrow> bool" where
  "falsy_value VUndefined = True"
| "falsy_value VNull = True"
| "falsy_value (VBool b) = (\<not> b)"
| "falsy_value (VNum n) = (n = Finite 0)"
| "falsy_value (VStr s) = (s = [])"
| "falsy_value (VArr xs) = False"
| "falsy_value (VObj ps) = False"

text \<open>The conversion of a value to a string, as \<open>RegExp.prototype.test\<close> applies it
  to its argument. An array is the join of its elements by a comma, undefined and null
  elements giving the empty string. An object built by \<open>JSON.parse\<close> has no callable
  property of its own: with an own property \<open>toString\<close> the conversion finds no method
  and throws, without one it is \<open>[object Object]\<close>. (An own \<open>valueOf\<close> changes
  nothing: it is not callable either, and the inherited one returns the object.)\<close>

fun js_toString :: "number_lib \<Rightarrow> jvalue \<Rightarrow> js_error + string"
  and js_join_values :: "number_lib \<Rightarrow> jvalue list \<Rightarrow> js_error + string" where
  "js_toString N VUndefined = Inr ''undefined''"
| "js_toString N VNull = Inr ''null''"
| "js_toString N (VBool b) = Inr (if b then ''true'' else ''false'')"
| "js_toString N (VNum n) = Inr (number_toString N n)"
| "js_toString N (VStr s) = Inr s"
| "js_toString N (VArr xs) = js_join_values N xs"
| "js_toString N (VObj ps) =
     (if map_of ps ''toString'' \<noteq> None
      then Inl (TypeError ''Cannot convert object to primitive value'')
      else Inr ''[object Object]'')"
| "js_join_values N [] = Inr []"
| "js_join_values N (x # xs) =
     (case (if x = VUndefined \<or> x = VNull then Inr [] else js_toString N x) of
        Inl error \<Rightarrow> Inl error
      | Inr a \<Rightarrow>
          if xs = [] then Inr a
          else (case js_join_values N xs of
                  Inl error \<Rightarrow> Inl error
                | Inr b \<Rightarrow> Inr (a @ '','' @ b)))"

text \<open>The conversion of a value to a number; \<open>None\<close> is NaN. An array or an object is
  first converted to a string, with the same outcome as above.\<close>

definition js_toNumber :: "number_lib \<Rightarrow> jvalue \<Rightarrow> js_error + number option" where
  "js_toNumber N v =
     (case v of
        VUndefined \<Rightarrow> Inr None
      | VNull \<Rightarrow> Inr (Some (Finite 0))
      | VBool b \<Rightarrow> Inr (Some (Finite (if b then 1 else 0)))
      | VNum n \<Rightarrow> Inr (Some n)
      | VStr s \<Rightarrow> Inr (string_toNumber N s)
      | _ \<Rightarrow> (case js_toString N v of
                Inl error \<Rightarrow> Inl error
              | Inr s \<Rightarrow> Inr (string_toNumber N s)))"

definition number_less :: "number \<Rightarrow> real \<Rightarrow> bool" where
  "number_less n k =
     (case n of Finite r \<Rightarrow> r < k | PosInfinity \<Rightarrow> False | NegInfinity \<Rightarrow> True)"

text \<open>\<open>v < k\<close> for a number literal \<open>k\<close>: false when \<open>v\<close> converts to NaN.\<close>

definition js_less :: "number_lib \<Rightarrow> jvalue \<Rightarrow> real \<Rightarrow> js_error + bool" where
  "js_less N v k =
     (case js_toNumber N v of
        Inl error \<Rightarrow> Inl error
      | Inr None \<Rightarrow> Inr False
      | Inr (Some n) \<Rightarrow> Inr (number_less n k))"

text \<open>\<open>v.length\<close>: the length of a string or an array, the own property of an object
  if it has one, undefined for a number or a boolean; reading a property of undefined or
  null throws.\<close>

definition js_length :: "jvalue \<Rightarrow> js_error + jvalue" where
  "js_length v =
     (case v of
        VUndefined \<Rightarrow> Inl (TypeError ''Cannot read properties of undefined'')
      | VNull \<Rightarrow> Inl (TypeError ''Cannot read properties of null'')
      | VBool b \<Rightarrow> Inr VUndefined
      | VNum n \<Rightarrow> Inr VUndefined
      | VStr s \<Rightarrow> Inr (VNum (Finite (real (length s))))
      | VArr xs \<Rightarrow> Inr (VNum (Finite (real (length xs))))
      | VObj ps \<Rightarrow> Inr (case map_of ps ''length'' of None \<Rightarrow> VUndefined | Some x \<Rightarrow> x))"

text \<open>\<open>v.trim()\<close> and \<open>v.toLowerCase().trim()\<close>: only a string has the methods; on any
  other value the call throws a TypeError (the property is undefined, or is an own
  property that is not callable).\<close>

definition call_trim :: "jvalue \<Rightarrow> js_error + string" where
  "call_trim v =
     (case v of
        VStr s \<Rightarrow> Inr (trim s)
      | _ \<Rightarrow> Inl (TypeError ''trim is not a function''))"

definition call_toLowerCase_trim :: "jvalue \<Rightarrow> js_error + string" where
  "call_toLowerCase_trim v =
     (case v of
        VStr s \<Rightarrow> Inr (trim (toLowerCase s))
      | _ \<Rightarrow> Inl (TypeError ''toLowerCase is not a function''))"

section \<open>Authentication middleware (middleware/authMiddleware.js)\<close>

text \<open>What the middleware does with a request: it answers (and the request ends), or
  it sets \<open>req.user\<close> and calls \<open>next()\<close>. A property of the decoded payload that is
  missing reads as undefined.\<close>

record req_user =
  user_id :: "json option"
  user_email :: "json option"

datatype gate_outcome = Responded response | Next req_user

definition unauthorized :: "string \<Rightarrow> gate_outcome" where
  "unauthorized msg =
     Responded \<lparr>status = 401, body = [(''success'', JBool False), (''message'', JStr msg)]\<rparr>"

text \<open>The catch block of the middleware.\<close>

definition auth_catch :: "js_error \<Rightarrow> gate_outcome" where
  "auth_catch error =
     (if err_name error = ''JsonWebTokenError'' then unauthorized ''Invalid token''
      else if err_name error = ''TokenExpiredError'' then unauthorized ''Token has expired''
      else unauthorized ''Authentication failed'')"

text \<open>From \<open>const token = parts[1]\<close> on: verification, and the identity attached.\<close>

definition verify_token :: "jwt_lib \<Rightarrow> string \<Rightarrow> string \<Rightarrow> gate_outcome" where
  "verify_token jwt secret token =
     (case jwt_verify jwt token secret of
        Inl error \<Rightarrow> auth_catch error
      | Inr decoded \<Rightarrow>
          Next \<lparr>user_id = map_of decoded ''userId'', user_email = map_of decoded ''email''\<rparr>)"

text \<open>The function \<open>authMiddleware\<close> returns, applied to the value of
  \<open>req.headers.authorization\<close>.\<close>

definition auth_handler :: "string \<Rightarrow> jwt_lib \<Rightarrow> string option \<Rightarrow> gate_outcome" where
  "auth_handler secret jwt authHeader =
     (case authHeader of
        None \<Rightarrow> unauthorized ''Authorization header is required''
      | Some header \<Rightarrow>
          if header = [] then unauthorized ''Authorization header is required''
          else
            (case js_split CHR '' '' header of
               [scheme, token] \<Rightarrow>
                 if scheme \<noteq> ''Bearer''
                 then unauthorized ''Invalid authorization header format. Use: Bearer <token>''
                 else verify_token jwt secret token
             | _ \<Rightarrow> unauthorized ''Invalid authorization header format. Use: Bearer <token>''))"

text \<open>\<open>authMiddleware(options)\<close>: \<open>!secret\<close> throws at construction.\<close>

definition authMiddleware ::
  "string option \<Rightarrow> js_error + (jwt_lib \<Rightarrow> string option \<Rightarrow> gate_outcome)" where
  "authMiddleware secret =
     (case secret of
        None \<Rightarrow> Inl (Error ''JWT secret is required for authMiddleware'')
      | Some s \<Rightarrow>
          if s = [] then Inl (Error ''JWT secret is required for authMiddleware'')
          else Inr (auth_handler s))"

section \<open>Authentication routes (routes/authRouter.js, createAuthRouter)\<close>

text \<open>A document of the \<open>User\<close> model, and the fields given to \<open>User.create\<close>.\<close>

record user_doc =
  doc_id :: string
  doc_name :: string
  doc_email :: string
  doc_password :: string
  doc_createdAt :: nat
  doc_updatedAt :: nat

record new_user =
  new_name :: string
  new_email :: string
  new_password :: string

text \<open>The \<open>User\<close> model is a parameter too, over a store \<open>'d\<close> that \<open>create\<close>
  changes: \<open>User.findOne({email})\<close>, \<open>User.create(fields)\<close> and \<open>User.findById(id)\<close>.
  A call that throws leaves the store as it was.\<close>

record 'd user_model =
  findOne :: "string \<Rightarrow> 'd \<Rightarrow> js_error + user_doc option"
  create :: "new_user \<Rightarrow> 'd \<Rightarrow> js_error + (user_doc \<times> 'd)"
  findById :: "json option \<Rightarrow> 'd \<Rightarrow> js_error + user_doc option"

record 'd env =
  env_User :: "'d user_model"
  env_bcrypt :: bcrypt_lib
  env_jwt :: jwt_lib
  env_Number :: number_lib

text \<open>The fields of \<open>req.body\<close> the handlers read, as the body parser of the
  application (\<open>express.json()\<close>) leaves them: any value of a JSON body, or undefined.\<close>

record request_body =
  body_name :: jvalue
  body_email :: jvalue
  body_password :: jvalue

text \<open>The string of a value known not to be undefined.\<close>

definition str :: "string option \<Rightarrow> string" where
  "str x = (case x of None \<Rightarrow> [] | Some s \<Rightarrow> s)"

definition failure :: "nat \<Rightarrow> string \<Rightarrow> response" where
  "failure st msg = \<lparr>status = st, body = [(''success'', JBool False), (''message'', JStr msg)]\<rparr>"

text \<open>\<open>userResponse\<close> of the register and login handlers.\<close>

definition userResponse :: "user_doc \<Rightarrow> json" where
  "userResponse user =
     JObj [(''id'', JStr (doc_id user)), (''name'', JStr (doc_name user)),
           (''email'', JStr (doc_email user)), (''createdAt'', JDate (doc_createdAt user))]"

subsection \<open>POST /register\<close>

definition register_catch :: "js_error \<Rightarrow> response" where
  "register_catch error =
     (if err_code error = Some 11000 then failure 400 ''Email already exists''
      else if err_name error = ''ValidationError''
      then failure 400 (js_join '', '' (err_errors error))
      else failure 500 ''Internal server error'')"

text \<open>\<open>validatePassword(password)\<close> as the handler calls it, on whatever value the
  request holds: \<open>password.length < 8\<close> and the four tests, each of which converts its
  argument to a string (the same string each time, or the same error at the first
  test). On a string it is \<open>validatePassword\<close> above.\<close>

definition validatePassword_value :: "number_lib \<Rightarrow> jvalue \<Rightarrow> js_error + password_validation" where
  "validatePassword_value N password =
     (case js_length password of
        Inl error \<Rightarrow> Inl error
      | Inr len \<Rightarrow>
          (case js_less N len 8 of
             Inl error \<Rightarrow> Inl error
           | Inr short \<Rightarrow>
               if short then
                 Inr \<lparr>isValid = False,
                      message = Some ''Password must be at least 8 characters long''\<rparr>
               else
                 (case js_toString N password of
                    Inl error \<Rightarrow> Inl error
                  | Inr s \<Rightarrow>
                      Inr (if \<not> regex_class_test class_upper s then
                             \<lparr>isValid = False,
                              message = Some ''Password must contain at least one uppercase letter''\<rparr>
                           else if \<not> regex_class_test class_lower s then
                             \<lparr>isValid = False,
                              message = Some ''Password must contain at least one lowercase letter''\<rparr>
                           else if \<not> regex_class_test class_digit s then
                             \<lparr>isValid = False,
                              message = Some ''Password must contain at least one number''\<rparr>
                           else if \<not> regex_class_test class_special s then
                             \<lparr>isValid = False,
                              message = Some ''Password must contain at least one special character''\<rparr>
                           else \<lparr>isValid = True, message = None\<rparr>))))"

text \<open>The handler once the three fields are known to be truthy: the password check,
  the lookup, the hash and the creation. The fields of the new document are evaluated in
  the order written, \<open>name.trim()\<close> first.\<close>

definition register_fields ::
  "nat \<Rightarrow> 'd env \<Rightarrow> jvalue \<Rightarrow> jvalue \<Rightarrow> jvalue \<Rightarrow> 'd \<Rightarrow> response \<times> 'd" where
  "register_fields bcryptRounds env name email password d =
     (case validatePassword_value (env_Number env) password of
        Inl error \<Rightarrow> (register_catch error, d)
      | Inr passwordValidation \<Rightarrow>
          if \<not> isValid passwordValidation then
            (\<lparr>status = 400,
              body = (''success'', JBool False) #
                     (case message passwordValidation of
                        None \<Rightarrow> [] | Some m \<Rightarrow> [(''message'', JStr m)])\<rparr>, d)
          else
            (case call_toLowerCase_trim email of
               Inl error \<Rightarrow> (register_catch error, d)
             | Inr lookupEmail \<Rightarrow>
                 (case findOne (env_User env) lookupEmail d of
                    Inl error \<Rightarrow> (register_catch error, d)
                  | Inr (Some existingUser) \<Rightarrow> (failure 400 ''Email already exists'', d)
                  | Inr None \<Rightarrow>
                      (case bcrypt_hash (env_bcrypt env) password bcryptRounds of
                         Inl error \<Rightarrow> (register_catch error, d)
                       | Inr hashedPassword \<Rightarrow>
                           (case call_trim name of
                              Inl error \<Rightarrow> (register_catch error, d)
                            | Inr newName \<Rightarrow>
                                (case call_toLowerCase_trim email of
                                   Inl error \<Rightarrow> (register_catch error, d)
                                 | Inr newEmail \<Rightarrow>
                                     (case create (env_User env)
                                             \<lparr>new_name = newName, new_email = newEmail,
                                              new_password = hashedPassword\<rparr> d of
                                        Inl error \<Rightarrow> (register_catch error, d)
                                      | Inr (user, d') \<Rightarrow>
                                          (\<lparr>status = 201,
                                            body = [(''success'', JBool True),
                                                    (''message'', JStr ''User registered successfully''),
                                                    (''data'', JObj [(''user'', userResponse user)])]\<rparr>,
                                           d'))))))))"

definition register_handler :: "nat \<Rightarrow> 'd env \<Rightarrow> request_body \<Rightarrow> 'd \<Rightarrow> response \<times> 'd" where
  "register_handler bcryptRounds env req d =
     (if falsy_value (body_name req) \<or> falsy_value (body_email req)
           \<or> falsy_value (body_password req)
      then (failure 400 ''Name, email, and password are required'', d)
      else register_fields bcryptRounds env
             (body_name req) (body_email req) (body_password req) d)"

subsection \<open>POST /login\<close>

text \<open>The call of \<open>jwt.sign\<close> in the login handler, and the payload it signs.\<close>

definition token_payload :: "user_doc \<Rightarrow> payload" where
  "token_payload user = [(''userId'', JStr (doc_id user)), (''email'', JStr (doc_email user))]"

definition issue_token :: "jwt_lib \<Rightarrow> string \<Rightarrow> expires \<Rightarrow> user_doc \<Rightarrow> js_error + string" where
  "issue_token jwt secret expiresIn user = jwt_sign jwt (token_payload user) secret expiresIn"

definition login_fields ::
  "string \<Rightarrow> expires \<Rightarrow> 'd env \<Rightarrow> jvalue \<Rightarrow> jvalue \<Rightarrow> 'd \<Rightarrow> response" where
  "login_fields secret expiresIn env email password d =
     (case call_toLowerCase_trim email of
        Inl error \<Rightarrow> failure 500 ''Internal server error''
      | Inr lookupEmail \<Rightarrow>
          (case findOne (env_User env) lookupEmail d of
             Inl error \<Rightarrow> failure 500 ''Internal server error''
           | Inr None \<Rightarrow> failure 401 ''Invalid email or password''
           | Inr (Some user) \<Rightarrow>
               (case bcrypt_compare (env_bcrypt env) password (doc_password user) of
                  Inl error \<Rightarrow> failure 500 ''Internal server error''
                | Inr isPasswordValid \<Rightarrow>
                    if \<not> isPasswordValid then failure 401 ''Invalid email or password''
                    else
                      (case issue_token (env_jwt env) secret expiresIn user of
                         Inl error \<Rightarrow> failure 500 ''Internal server error''
                       | Inr token \<Rightarrow>
                           \<lparr>status = 200,
                            body = [(''success'', JBool True),
                                    (''message'', JStr ''Login successful''),
                                    (''data'', JObj [(''token'', JStr token),
                                                     (''user'', userResponse user)])]\<rparr>))))"

definition login_handler ::
  "string \<Rightarrow> expires \<Rightarrow> 'd env \<Rightarrow> request_body \<Rightarrow> 'd \<Rightarrow> response" where
  "login_handler secret expiresIn env req d =
     (if falsy_value (body_email req) \<or> falsy_value (body_password req)
      then failure 400 ''Email and password are required''
      else login_fields secret expiresIn env (body_email req) (body_password req) d)"

subsection \<open>GET /me\<close>

definition me_handler :: "'d env \<Rightarrow> req_user \<Rightarrow> 'd \<Rightarrow> response" where
  "me_handler env user d =
     (case findById (env_User env) (user_id user) d of
        Inl error \<Rightarrow> failure 500 ''Internal server error''
      | Inr None \<Rightarrow> failure 404 ''User not found''
      | Inr (Some u) \<Rightarrow>
          \<lparr>status = 200,
           body = [(''success'', JBool True),
                   (''message'', JStr ''User retrieved successfully''),
                   (''data'', JObj [(''user'',
                      JObj [(''id'', JStr (doc_id u)), (''name'', JStr (doc_name u)),
                            (''email'', JStr (doc_email u)),
                            (''createdAt'', JDate (doc_createdAt u)),
                            (''updatedAt'', JDate (doc_updatedAt u))])])]\<rparr>)"

text \<open>The route: the middleware first, the handler when it calls \<open>next()\<close>.\<close>

definition me_route ::
  "(jwt_lib \<Rightarrow> string option \<Rightarrow> gate_outcome) \<Rightarrow> 'd env \<Rightarrow> string option \<Rightarrow> 'd \<Rightarrow> response" where
  "me_route gate env authHeader d =
     (case gate (env_jwt env) authHeader of
        Responded r \<Rightarrow> r
      | Next user \<Rightarrow> me_handler env user d)"

subsection \<open>The router\<close>

record options =
  opt_secret :: "string option"
  opt_expiresIn :: "expires option"
  opt_bcryptRounds :: "nat option"

record 'd router =
  post_register :: "'d env \<Rightarrow> request_body \<Rightarrow> 'd \<Rightarrow> response \<times> 'd"
  post_login :: "'d env \<Rightarrow> request_body \<Rightarrow> 'd \<Rightarrow> response"
  get_me :: "'d env \<Rightarrow> string option \<Rightarrow> 'd \<Rightarrow> response"

definition createAuthRouter :: "options \<Rightarrow> js_error + 'd router" where
  "createAuthRouter opts =
     (let expiresIn = (case opt_expiresIn opts of None \<Rightarrow> Timespan ''24h'' | Some e \<Rightarrow> e);
          bcryptRounds = (case opt_bcryptRounds opts of None \<Rightarrow> 14 | Some r \<Rightarrow> r)
      in if falsy (opt_secret opts)
         then Inl (Error ''JWT secret is required for createAuthRouter'')
         else
           (case authMiddleware (opt_secret opts) of
              Inl error \<Rightarrow> Inl error
            | Inr gate \<Rightarrow>
                Inr \<lparr>post_register = register_handler bcryptRounds,
                     post_login = login_handler (str (opt_secret opts)) expiresIn,
                     get_me = me_route gate\<rparr>))"

section \<open>The collaborators as the specification describes them\<close>

subsection \<open>Account directory\<close>

text \<open>
  Modelled from the spec: the \<open>User\<close> model (models/User.js) is not among the sources.
  The specification's AccountDirectory is \<open>findByEmail(normalizedEmail) -> Account?\<close>,
  \<open>findById(id) -> Account?\<close> and \<open>create(fields) -> Account\<close>, with uniqueness enforced
  on the email. The directory is the list of its accounts; \<open>gen\<close> chooses the opaque
  identity of a new account and \<open>now\<close> is the instant of the call. A creation that
  breaks uniqueness throws the duplicate-key error the register handler looks for
  (code 11000).
\<close>

definition duplicate_key :: js_error where
  "duplicate_key =
     \<lparr>err_name = ''MongoServerError'', err_message = ''duplicate key'',
      err_code = Some 11000, err_errors = []\<rparr>"

definition dir_findOne :: "string \<Rightarrow> user_doc list \<Rightarrow> js_error + user_doc option" where
  "dir_findOne e d = Inr (find (\<lambda>u. doc_email u = e) d)"

definition dir_create ::
  "(user_doc list \<Rightarrow> string) \<Rightarrow> nat \<Rightarrow> new_user \<Rightarrow> user_doc list
     \<Rightarrow> js_error + (user_doc \<times> user_doc list)" where
  "dir_create gen now flds d =
     (if list_ex (\<lambda>u. doc_email u = new_email flds) d then Inl duplicate_key
      else
        (let user = \<lparr>doc_id = gen d, doc_name = new_name flds, doc_email = new_email flds,
                      doc_password = new_password flds, doc_createdAt = now,
                      doc_updatedAt = now\<rparr>
         in Inr (user, d @ [user])))"

definition dir_findById :: "json option \<Rightarrow> user_doc list \<Rightarrow> js_error + user_doc option" where
  "dir_findById i d =
     (case i of
        Some (JStr s) \<Rightarrow> Inr (find (\<lambda>u. doc_id u = s) d)
      | _ \<Rightarrow> Inr None)"

definition directory :: "(user_doc list \<Rightarrow> string) \<Rightarrow> nat \<Rightarrow> user_doc list user_model" where
  "directory gen now =
     \<lparr>findOne = dir_findOne, create = dir_create gen now, findById = dir_findById\<rparr>"

subsection \<open>Token service\<close>

text \<open>
  Modelled from the spec: the token library (jsonwebtoken) is not among the sources.
  The specification's Token is a signed structure binding the payload, the issued-at
  instant and the expiry to a signature derived from the secret. \<open>issue\<close> computes the
  expiry as now + ttl. \<open>verify\<close> goes through Received, Parsed, SignatureChecked,
  ExpiryChecked, Accepted: it fails as malformed when the string cannot be parsed or the
  signature does not validate, as expired when the current time is at or after the
  expiry, and as misconfigured without a secret. The errors carry the names the
  middleware matches: the malformed and the misconfigured kinds \<open>JsonWebTokenError\<close>,
  the expired kind \<open>TokenExpiredError\<close>.

  What the specification leaves open is a parameter: how a token is written as a string
  and read back, how the signature is computed from the secret and the claims, and how
  many seconds a time span such as \<open>"24h"\<close> denotes.
\<close>

record token =
  tok_claims :: payload
  tok_signature :: string

record token_format =
  serialize :: "token \<Rightarrow> string"
  parse :: "string \<Rightarrow> token option"
  mac :: "string \<Rightarrow> payload \<Rightarrow> string"
  span :: "string \<Rightarrow> nat option"

definition JsonWebTokenError :: "string \<Rightarrow> js_error" where
  "JsonWebTokenError msg =
     \<lparr>err_name = ''JsonWebTokenError'', err_message = msg, err_code = None, err_errors = []\<rparr>"

definition TokenExpiredError :: js_error where
  "TokenExpiredError =
     \<lparr>err_name = ''TokenExpiredError'', err_message = ''jwt expired'', err_code = None,
      err_errors = []\<rparr>"

definition ttl_seconds :: "token_format \<Rightarrow> expires \<Rightarrow> nat option" where
  "ttl_seconds K e = (case e of Seconds n \<Rightarrow> Some n | Timespan s \<Rightarrow> span K s)"

definition issued :: "token_format \<Rightarrow> nat \<Rightarrow> payload \<Rightarrow> string \<Rightarrow> nat \<Rightarrow> token" where
  "issued K now subject secret ttl =
     (let claims = subject @ [(''iat'', JNum now), (''exp'', JNum (now + ttl))]
      in \<lparr>tok_claims = claims, tok_signature = mac K secret claims\<rparr>)"

definition issue :: "token_format \<Rightarrow> nat \<Rightarrow> payload \<Rightarrow> string \<Rightarrow> expires \<Rightarrow> js_error + string" where
  "issue K now subject secret expiresIn =
     (if secret = [] then Inl (Error ''secretOrPrivateKey must have a value'')
      else
        (case ttl_seconds K expiresIn of
           None \<Rightarrow> Inl (Error ''invalid expiresIn option'')
         | Some ttl \<Rightarrow> Inr (serialize K (issued K now subject secret ttl))))"

definition verify :: "token_format \<Rightarrow> nat \<Rightarrow> string \<Rightarrow> string \<Rightarrow> js_error + payload" where
  "verify K now tokenString secret =
     (if secret = [] then Inl (JsonWebTokenError ''secret or public key must be provided'')
      else
        (case parse K tokenString of
           None \<Rightarrow> Inl (JsonWebTokenError ''jwt malformed'')
         | Some tok \<Rightarrow>
             if tok_signature tok \<noteq> mac K secret (tok_claims tok)
             then Inl (JsonWebTokenError ''invalid signature'')
             else
               (case map_of (tok_claims tok) ''exp'' of
                  Some (JNum e) \<Rightarrow>
                    if e \<le> now then Inl TokenExpiredError else Inr (tok_claims tok)
                | _ \<Rightarrow> Inl (JsonWebTokenError ''invalid exp value''))))"

definition token_service :: "token_format \<Rightarrow> nat \<Rightarrow> jwt_lib" where
  "token_service K now = \<lparr>jwt_sign = issue K now, jwt_verify = verify K now\<rparr>"

section \<open>The response envelope\<close>

text \<open>A response has a top-level boolean \<open>success\<close>; with \<open>success\<close> false it has a
  \<open>message\<close>, with \<open>success\<close> true it has a \<open>data\<close> payload.\<close>

definition envelope :: "response \<Rightarrow> bool" where
  "envelope r =
     (case map_of (body r) ''success'' of
        Some (JBool b) \<Rightarrow>
          if b then map_of (body r) ''data'' \<noteq> None
          else (case map_of (body r) ''message'' of Some (JStr m) \<Rightarrow> True | _ \<Rightarrow> False)
      | _ \<Rightarrow> False)"

section \<open>Words of the specification about headers\<close>

text \<open>A header value is the tokens \<open>ts\<close> separated by single spaces: it is their join,
  and no token holds a space.\<close>

definition space_separated :: "string \<Rightarrow> string list \<Rightarrow> bool" where
  "space_separated h ts =
     (ts \<noteq> [] \<and> h = js_join '' '' ts \<and> list_all (\<lambda>t. CHR '' '' \<notin> set t) ts)"

section \<open>Library doubles for concrete runs\<close>

text \<open>A token library whose \<open>verify\<close> has the fixed outcome \<open>r\<close>, and which signs
  nothing.\<close>

definition stub_jwt :: "js_error + payload \<Rightarrow> jwt_lib" where
  "stub_jwt r =
     \<lparr>jwt_sign = (\<lambda>p s e. Inl (Error ''not used'')), jwt_verify = (\<lambda>t s. r)\<rparr>"

text \<open>A token format given by a table of the strings it knows and the tokens they
  denote; its signature is the secret itself, and it knows two time spans.\<close>

definition table_format :: "(string \<times> token) list \<Rightarrow> token_format" where
  "table_format tab =
     \<lparr>serialize = (\<lambda>tok. case find (\<lambda>e. snd e = tok) tab of None \<Rightarrow> [] | Some e \<Rightarrow> fst e),
      parse = map_of tab,
      mac = (\<lambda>secret claims. secret),
      span = map_of [(''1h'', 3600), (''24h'', 86400)]\<rparr>"

text \<open>A hasher that puts a mark before the password and compares accordingly; like the
  library of the package it rejects a password that is not a string.\<close>

definition stub_bcrypt :: bcrypt_lib where
  "stub_bcrypt =
     \<lparr>bcrypt_hash = (\<lambda>password rounds.
        case password of
          VStr p \<Rightarrow> Inr (CHR ''#'' # p)
        | _ \<Rightarrow> Inl (Error ''Illegal arguments'')),
      bcrypt_compare = (\<lambda>password hashed.
        case password of
          VStr p \<Rightarrow> Inr (hashed = CHR ''#'' # p)
        | _ \<Rightarrow> Inl (Error ''Illegal arguments''))\<rparr>"

text \<open>A hasher that always throws.\<close>

definition failing_bcrypt :: bcrypt_lib where
  "failing_bcrypt =
     \<lparr>bcrypt_hash = (\<lambda>password rounds. Inl (Error ''hashing failed'')),
      bcrypt_compare = (\<lambda>password hashed. Inl (Error ''hashing failed''))\<rparr>"

text \<open>A \<open>User\<close> model whose store cannot be reached: every call throws.\<close>

definition failing_User :: "'d user_model" where
  "failing_User =
     \<lparr>findOne = (\<lambda>e d. Inl (Error ''connection lost'')),
      create = (\<lambda>n d. Inl (Error ''connection lost'')),
      findById = (\<lambda>i d. Inl (Error ''connection lost''))\<rparr>"

text \<open>Number conversions for runs that convert no number: every number is written
  \<open>NaN\<close> and no string is read as a number.\<close>

definition stub_Number :: number_lib where
  "stub_Number = \<lparr>number_toString = (\<lambda>n. ''NaN''), string_toNumber = (\<lambda>s. None)\<rparr>"

text \<open>An environment over the directory of the specification, at the instant \<open>now\<close>;
  the identity of a new account counts the accounts before it.\<close>

definition demo_env :: "jwt_lib \<Rightarrow> nat \<Rightarrow> user_doc list env" where
  "demo_env jwt now =
     \<lparr>env_User = directory (\<lambda>d. replicate (Suc (length d)) CHR ''i'') now,
      env_bcrypt = stub_bcrypt, env_jwt = jwt, env_Number = stub_Number\<rparr>"

section \<open>Properties of the password policy\<close>

lemma regex_class_test_iff: "regex_class_test cls s \<longleftrightarrow> (\<exists>c \<in> set s. cls c)"
  by (induction s) auto

lemma char_in_alphabet:
  assumes "(of_char c :: nat) \<in> of_char ` set cs"
  shows "c \<in> set cs"
proof -
  from assms obtain d where "d \<in> set cs" "(of_char c :: nat) = of_char d" by auto
  then show ?thesis by simp
qed

lemma nat_in_upt: "a \<le> n \<Longrightarrow> n \<le> b \<Longrightarrow> (n::nat) \<in> set [a..<Suc b]"
  by auto

lemma class_upper_iff: "class_upper c \<longleftrightarrow> c \<in> set ''ABCDEFGHIJKLMNOPQRSTUVWXYZ''"
proof
  assume "class_upper c"
  then have "(of_char c :: nat) \<in> set [65..<Suc 90]"
    by (intro nat_in_upt) (simp_all add: class_upper_def less_eq_char_def)
  then have "(of_char c :: nat) \<in> of_char ` set ''ABCDEFGHIJKLMNOPQRSTUVWXYZ''"
    by (simp add: upt_rec)
  then show "c \<in> set ''ABCDEFGHIJKLMNOPQRSTUVWXYZ''"
    by (rule char_in_alphabet)
next
  assume "c \<in> set ''ABCDEFGHIJKLMNOPQRSTUVWXYZ''"
  then show "class_upper c"
    by (auto simp: class_upper_def less_eq_char_def)
qed

lemma class_lower_iff: "class_lower c \<longleftrightarrow> c \<in> set ''abcdefghijklmnopqrstuvwxyz''"
proof
  assume "class_lower c"
  then have "(of_char c :: nat) \<in> set [97..<Suc 122]"
    by (intro nat_in_upt) (simp_all add: class_lower_def less_eq_char_def)
  then have "(of_char c :: nat) \<in> of_char ` set ''abcdefghijklmnopqrstuvwxyz''"
    by (simp add: upt_rec)
  then show "c \<in> set ''abcdefghijklmnopqrstuvwxyz''"
    by (rule char_in_alphabet)
next
  assume "c \<in> set ''abcdefghijklmnopqrstuvwxyz''"
  then show "class_lower c"
    by (auto simp: class_lower_def less_eq_char_def)
qed

lemma class_digit_iff: "class_digit c \<longleftrightarrow> c \<in> set ''0123456789''"
proof
  assume "class_digit c"
  then have "(of_char c :: nat) \<in> set [48..<Suc 57]"
    by (intro nat_in_upt) (simp_all add: class_digit_def less_eq_char_def)
  then have "(of_char c :: nat) \<in> of_char ` set ''0123456789''"
    by (simp add: upt_rec)
  then show "c \<in> set ''0123456789''"
    by (rule char_in_alphabet)
next
  assume "c \<in> set ''0123456789''"
  then show "class_digit c"
    by (auto simp: class_digit_def less_eq_char_def)
qed

lemma test_upper: "regex_class_test class_upper p = rule_upper p"
  by (simp add: regex_class_test_iff class_upper_iff rule_upper_def)

lemma test_lower: "regex_class_test class_lower p = rule_lower p"
  by (simp add: regex_class_test_iff class_lower_iff rule_lower_def)

lemma test_digit: "regex_class_test class_digit p = rule_digit p"
  by (simp add: regex_class_test_iff class_digit_iff rule_digit_def)

lemma test_special: "regex_class_test class_special p = rule_special p"
  by (simp add: regex_class_test_iff class_special_def rule_special_def)

lemmas policy_tests = test_upper test_lower test_digit test_special

text \<open>
  C3. For every string password \<open>p\<close>, \<open>validatePassword p\<close> reports valid exactly when
  \<open>p\<close> satisfies all five rules (at least 8 code units, an uppercase letter \<open>A\<close> to \<open>Z\<close>,
  a lowercase letter \<open>a\<close> to \<open>z\<close>, a digit, a character of the special set), and the
  message it reports is the reason of the first rule, in that order, that fails (none
  when all hold).
\<close>

theorem validatePassword_policy:
  "isValid (validatePassword p) =
     (rule_length p \<and> rule_upper p \<and> rule_lower p \<and> rule_digit p \<and> rule_special p)
   \<and> message (validatePassword p) = first_failure p"
  by (simp add: validatePassword_def policy_tests first_failure_def policy_rules_def
      rule_length_def not_less)

theorem validatePassword_policy_witness:
  "isValid (validatePassword ''Secure123!'')
   \<and> message (validatePassword ''Secure123!'') = None
   \<and> \<not> isValid (validatePassword ''SECURE123!'')
   \<and> message (validatePassword ''SECURE123!'') =
       Some ''Password must contain at least one lowercase letter''
   \<and> message (validatePassword ''secure!'') =
       Some ''Password must be at least 8 characters long''"
  using validatePassword_policy [of "''Secure123!''"]
    validatePassword_policy [of "''SECURE123!''"]
    validatePassword_policy [of "''secure!''"]
  by (simp add: first_failure_def policy_rules_def rule_length_def rule_upper_def
      rule_lower_def rule_digit_def rule_special_def special_chars_def)

section \<open>Properties of the authentication middleware\<close>

lemma js_split_ne [simp]: "js_split sep s \<noteq> []"
  by (induction s) (auto split: list.splits)

lemma js_split_nosep: "sep \<notin> set s \<Longrightarrow> js_split sep s = [s]"
  by (induction s) auto

lemma js_split_append: "sep \<notin> set a \<Longrightarrow> js_split sep (a @ sep # b) = a # js_split sep b"
  by (induction a) auto

lemma js_split_pieces: "p \<in> set (js_split sep s) \<Longrightarrow> sep \<notin> set p"
  by (induction s arbitrary: p) (auto split: list.splits if_splits)

lemma js_split_single: "js_split sep s = [b] \<Longrightarrow> s = b"
  by (induction s arbitrary: b) (auto split: list.splits if_splits)

lemma js_split_two: "js_split sep s = [a, b] \<Longrightarrow> s = a @ sep # b"
proof (induction s arbitrary: a)
  case Nil
  then show ?case by simp
next
  case (Cons c cs)
  show ?case
  proof (cases "c = sep")
    case True
    with Cons.prems show ?thesis by (auto dest: js_split_single)
  next
    case False
    with Cons.prems obtain p where "js_split sep cs = [p, b]" "a = c # p"
      by (auto split: list.splits)
    with Cons.IH show ?thesis by simp
  qed
qed

lemma bearer_split_iff:
  "js_split CHR '' '' h = [''Bearer'', t] \<longleftrightarrow> space_separated h [''Bearer'', t]"
proof
  assume a: "js_split CHR '' '' h = [''Bearer'', t]"
  then have "h = ''Bearer'' @ CHR '' '' # t" by (rule js_split_two)
  moreover have "CHR '' '' \<notin> set t" using js_split_pieces [of t "CHR '' ''" h] a by simp
  ultimately show "space_separated h [''Bearer'', t]" by (simp add: space_separated_def)
next
  assume "space_separated h [''Bearer'', t]"
  then have "h = ''Bearer'' @ CHR '' '' # t" "CHR '' '' \<notin> set t"
    by (simp_all add: space_separated_def)
  then show "js_split CHR '' '' h = [''Bearer'', t]"
    using js_split_append [of "CHR '' ''" "''Bearer''" t] by (simp add: js_split_nosep)
qed

lemma auth_handler_bearer:
  assumes "space_separated h [''Bearer'', t]"
  shows "auth_handler key jwt (Some h) = verify_token jwt key t"
proof -
  from assms have "js_split CHR '' '' h = [''Bearer'', t]" by (simp only: bearer_split_iff)
  moreover from assms have "h \<noteq> []" by (auto simp: space_separated_def)
  ultimately show ?thesis by (simp add: auth_handler_def)
qed

lemma auth_handler_malformed:
  assumes "h \<noteq> []" "\<not> (\<exists>t. space_separated h [''Bearer'', t])"
  shows "auth_handler key jwt (Some h) =
           unauthorized ''Invalid authorization header format. Use: Bearer <token>''"
proof -
  have "js_split CHR '' '' h \<noteq> [''Bearer'', t]" for t
    using assms(2) bearer_split_iff [of h t] by blast
  then show ?thesis using assms(1)
    by (auto simp: auth_handler_def split: list.splits)
qed

lemma bearer_header: "CHR '' '' \<notin> set t \<Longrightarrow> space_separated (''Bearer '' @ t) [''Bearer'', t]"
  by (simp add: space_separated_def)

text \<open>
  C4, as stated, fails for a header that is present and empty: it is not two tokens, and
  the middleware answers that the header is required, not that its format is invalid.
\<close>

theorem auth_handler_empty_header_counterexample:
  "Some [] \<noteq> (None :: string option)
   \<and> js_split CHR '' '' [] = [[]]
   \<and> auth_handler ''k'' (stub_jwt (Inr [])) (Some []) =
       unauthorized ''Authorization header is required''
   \<and> auth_handler ''k'' (stub_jwt (Inr [])) (Some []) \<noteq>
       unauthorized ''Invalid authorization header format. Use: Bearer <token>''"
  by (simp add: auth_handler_def unauthorized_def)

text \<open>
  C4 (amended). The middleware answers 401 with the message that the authorization header
  is required when the header is absent or empty; it answers 401 with the message that
  the header format is invalid when the header is not empty and is not exactly two
  space-separated tokens of which the first is \<open>Bearer\<close>; and only for a header of
  exactly these two tokens it hands the second one to the verification of the token.
\<close>

theorem auth_handler_header:
  "auth_handler key jwt None = unauthorized ''Authorization header is required''
   \<and> auth_handler key jwt (Some []) = unauthorized ''Authorization header is required''
   \<and> (h \<noteq> [] \<and> \<not> (\<exists>t. space_separated h [''Bearer'', t]) \<longrightarrow>
        auth_handler key jwt (Some h) =
          unauthorized ''Invalid authorization header format. Use: Bearer <token>'')
   \<and> (space_separated h [''Bearer'', t] \<longrightarrow>
        auth_handler key jwt (Some h) = verify_token jwt key t)"
  using auth_handler_malformed [of h key jwt] auth_handler_bearer [of h t key jwt]
  by (simp add: auth_handler_def)

theorem auth_handler_header_witness:
  "auth_handler ''k'' (stub_jwt (Inr [(''userId'', JStr ''7'')])) (Some ''Token xyz'') =
     unauthorized ''Invalid authorization header format. Use: Bearer <token>''
   \<and> auth_handler ''k'' (stub_jwt (Inr [(''userId'', JStr ''7'')])) (Some ''Bearer xyz'') =
       Next \<lparr>user_id = Some (JStr ''7''), user_email = None\<rparr>"
proof -
  have a: "\<not> (\<exists>t. space_separated ''Token xyz'' [''Bearer'', t])"
    by (simp add: space_separated_def)
  have b: "space_separated ''Bearer xyz'' [''Bearer'', ''xyz'']"
    by (simp add: space_separated_def)
  show ?thesis
    using auth_handler_header [of "''k''" "stub_jwt (Inr [(''userId'', JStr ''7'')])" "''Token xyz''" "[]"]
      auth_handler_header [of "''k''" "stub_jwt (Inr [(''userId'', JStr ''7'')])" "''Bearer xyz''" "''xyz''"]
      a b
    by (simp add: verify_token_def stub_jwt_def)
qed

lemma auth_catch_status: "auth_catch error = Responded r \<Longrightarrow> status r = 401"
  by (auto simp: auth_catch_def unauthorized_def split: if_splits)

lemma verify_token_status: "verify_token jwt key token = Responded r \<Longrightarrow> status r = 401"
  by (auto simp: verify_token_def split: sum.splits dest: auth_catch_status)

text \<open>
  C10. When the verification of the token throws an error whose name is neither
  \<open>JsonWebTokenError\<close> nor \<open>TokenExpiredError\<close>, the middleware answers 401 with the
  message \<open>Authentication failed\<close>; and whatever the header and whatever the library
  throws, every answer of the middleware has status 401.
\<close>

theorem auth_catch_other_errors:
  "(jwt_verify jwt token key = Inl error \<and> err_name error \<noteq> ''JsonWebTokenError''
      \<and> err_name error \<noteq> ''TokenExpiredError'' \<longrightarrow>
        verify_token jwt key token = unauthorized ''Authentication failed''
        \<and> (CHR '' '' \<notin> set token \<longrightarrow>
             auth_handler key jwt (Some (''Bearer '' @ token)) =
               unauthorized ''Authentication failed''))
   \<and> (auth_handler key jwt authHeader = Responded r \<longrightarrow> status r = 401)"
proof -
  have "status r = 401" if "auth_handler key jwt authHeader = Responded r"
    using that
    by (auto simp: auth_handler_def unauthorized_def
        split: option.splits if_splits list.splits dest: verify_token_status)
  moreover have "auth_handler key jwt (Some (''Bearer '' @ token)) = verify_token jwt key token"
    if "CHR '' '' \<notin> set token"
    using that by (intro auth_handler_bearer bearer_header)
  ultimately show ?thesis
    by (auto simp: verify_token_def auth_catch_def)
qed

theorem auth_catch_other_errors_witness:
  "auth_handler ''k''
     (stub_jwt (Inl \<lparr>err_name = ''NotBeforeError'', err_message = ''jwt not active'',
                     err_code = None, err_errors = []\<rparr>))
     (Some ''Bearer abc'') = unauthorized ''Authentication failed''
   \<and> status \<lparr>status = 401,
        body = [(''success'', JBool False), (''message'', JStr ''Authentication failed'')]\<rparr> = 401"
  using auth_catch_other_errors
    [of "stub_jwt (Inl \<lparr>err_name = ''NotBeforeError'', err_message = ''jwt not active'',
                        err_code = None, err_errors = []\<rparr>)"
        "''abc''" "''k''"
        "\<lparr>err_name = ''NotBeforeError'', err_message = ''jwt not active'',
          err_code = None, err_errors = []\<rparr>"
        "Some ''Bearer abc''"
        "\<lparr>status = 401,
          body = [(''success'', JBool False), (''message'', JStr ''Authentication failed'')]\<rparr>"]
  by (simp add: stub_jwt_def unauthorized_def)

section \<open>Properties of construction\<close>

text \<open>
  C8. When the configured secret is absent or empty, \<open>createAuthRouter\<close> and
  \<open>authMiddleware\<close> throw at construction (an \<open>Error\<close> saying that the secret is
  required), so no handler exists; and a router or a middleware that was constructed
  holds a secret that is not empty in its handlers.
\<close>

theorem construction_requires_secret:
  "(falsy (opt_secret opts) \<longrightarrow>
      (createAuthRouter opts :: js_error + 'd router) =
        Inl (Error ''JWT secret is required for createAuthRouter'')
      \<and> authMiddleware (opt_secret opts) =
        Inl (Error ''JWT secret is required for authMiddleware''))
   \<and> ((createAuthRouter opts :: js_error + 'd router) = Inr router \<longrightarrow>
        (\<exists>s. opt_secret opts = Some s \<and> s \<noteq> []
           \<and> post_login router =
               login_handler s (case opt_expiresIn opts of None \<Rightarrow> Timespan ''24h'' | Some e \<Rightarrow> e)
           \<and> get_me router = me_route (auth_handler s)))
   \<and> (authMiddleware (opt_secret opts) = Inr gate \<longrightarrow>
        (\<exists>s. opt_secret opts = Some s \<and> s \<noteq> [] \<and> gate = auth_handler s))"
  by (auto simp: createAuthRouter_def authMiddleware_def falsy_def str_def Let_def
      split: option.splits if_splits)

theorem construction_requires_secret_witness:
  "(createAuthRouter \<lparr>opt_secret = Some [], opt_expiresIn = None, opt_bcryptRounds = None\<rparr>
      :: js_error + unit router) = Inl (Error ''JWT secret is required for createAuthRouter'')
   \<and> authMiddleware None = Inl (Error ''JWT secret is required for authMiddleware'')
   \<and> (\<exists>router. (createAuthRouter
          \<lparr>opt_secret = Some ''s3cret'', opt_expiresIn = None, opt_bcryptRounds = None\<rparr>
            :: js_error + unit router) = Inr router)"
  using construction_requires_secret
     [of "\<lparr>opt_secret = Some [], opt_expiresIn = None, opt_bcryptRounds = None\<rparr>"]
     construction_requires_secret
     [of "\<lparr>opt_secret = None, opt_expiresIn = None, opt_bcryptRounds = None\<rparr>"]
  by (simp add: falsy_def createAuthRouter_def authMiddleware_def)

section \<open>Properties of tokens\<close>

text \<open>
  C1. For every account (its id and its email), every secret that is not empty and every
  time to live, the token that the login handler has the token service issue at the
  instant \<open>now\<close>, presented as \<open>Bearer <token>\<close> at any instant \<open>t\<close> before its expiry
  \<open>now + ttl\<close> (at \<open>now\<close> itself when the time to live is positive) to a middleware
  with the same secret, is accepted, and the identity attached to the request is the id
  and the email that were signed. The format is any that reads back the string it writes
  for this token, without a space in it.
\<close>

theorem issued_token_accepted:
  assumes "ttl_seconds K e = Some ttl" and "key \<noteq> []" and "t < now + ttl"
    and "parse K (serialize K (issued K now (token_payload u) key ttl)) =
           Some (issued K now (token_payload u) key ttl)"
    and "CHR '' '' \<notin> set (serialize K (issued K now (token_payload u) key ttl))"
  shows "\<exists>s. issue_token (token_service K now) key e u = Inr s
           \<and> auth_handler key (token_service K t) (Some (''Bearer '' @ s)) =
               Next \<lparr>user_id = Some (JStr (doc_id u)), user_email = Some (JStr (doc_email u))\<rparr>"
proof -
  let ?s = "serialize K (issued K now (token_payload u) key ttl)"
  have i: "issue_token (token_service K now) key e u = Inr ?s"
    using assms(1,2) by (simp add: issue_token_def token_service_def issue_def)
  have v: "verify K t ?s key =
             Inr (token_payload u @ [(''iat'', JNum now), (''exp'', JNum (now + ttl))])"
    using assms(2,3,4) by (simp add: verify_def issued_def Let_def token_payload_def)
  have "auth_handler key (token_service K t) (Some (''Bearer '' @ ?s)) =
          verify_token (token_service K t) key ?s"
    using assms(5) by (intro auth_handler_bearer bearer_header)
  with i v show ?thesis by (simp add: verify_token_def token_service_def token_payload_def)
qed

theorem issued_token_accepted_witness:
  "issue_token
          (token_service
             (table_format
                [(''abc'', \<lparr>tok_claims = [(''userId'', JStr ''7''), (''email'', JStr ''a@b.com''),
                                          (''iat'', JNum 100), (''exp'', JNum 3700)],
                           tok_signature = ''s3cret''\<rparr>)]) 100)
          ''s3cret'' (Timespan ''1h'')
          \<lparr>doc_id = ''7'', doc_name = ''Jo'', doc_email = ''a@b.com'', doc_password = ''h'',
           doc_createdAt = 1, doc_updatedAt = 1\<rparr> = Inr ''abc''
      \<and> auth_handler ''s3cret''
          (token_service
             (table_format
                [(''abc'', \<lparr>tok_claims = [(''userId'', JStr ''7''), (''email'', JStr ''a@b.com''),
                                          (''iat'', JNum 100), (''exp'', JNum 3700)],
                           tok_signature = ''s3cret''\<rparr>)]) 100)
          (Some ''Bearer abc'') =
            Next \<lparr>user_id = Some (JStr ''7''), user_email = Some (JStr ''a@b.com'')\<rparr>"
  using issued_token_accepted
    [of "table_format
                [(''abc'', \<lparr>tok_claims = [(''userId'', JStr ''7''), (''email'', JStr ''a@b.com''),
                                          (''iat'', JNum 100), (''exp'', JNum 3700)],
                           tok_signature = ''s3cret''\<rparr>)]"
        "Timespan ''1h''" 3600 "''s3cret''" 100 100
        "\<lparr>doc_id = ''7'', doc_name = ''Jo'', doc_email = ''a@b.com'', doc_password = ''h'',
           doc_createdAt = 1, doc_updatedAt = 1\<rparr>"]
  by (simp add: table_format_def ttl_seconds_def issued_def token_payload_def issue_token_def
      token_service_def issue_def)

lemma verify_errors:
  "verify K now s key = Inl err \<Longrightarrow>
     err_name err = ''JsonWebTokenError'' \<or> err_name err = ''TokenExpiredError''"
  by (auto simp: verify_def JsonWebTokenError_def TokenExpiredError_def
      split: if_splits option.splits json.splits)

text \<open>
  C7. A token that parses, whose signature validates under the secret and whose expiry
  is at or before the current time is answered by the middleware with the message
  \<open>Token has expired\<close>, not with \<open>Invalid token\<close>; and every error the token service
  throws is of one of the two kinds, each with its own answer.
\<close>

theorem expired_token_rejected:
  assumes "parse K s = Some tok" and "tok_signature tok = mac K key (tok_claims tok)"
    and "map_of (tok_claims tok) ''exp'' = Some (JNum e)" and "e \<le> now" and "key \<noteq> []"
  shows "verify_token (token_service K now) key s = unauthorized ''Token has expired''
     \<and> verify_token (token_service K now) key s \<noteq> unauthorized ''Invalid token''
     \<and> (CHR '' '' \<notin> set s \<longrightarrow>
          auth_handler key (token_service K now) (Some (''Bearer '' @ s)) =
            unauthorized ''Token has expired'')
     \<and> (\<forall>s' err. jwt_verify (token_service K now) s' key = Inl err \<longrightarrow>
          (err_name err = ''JsonWebTokenError''
             \<and> verify_token (token_service K now) key s' = unauthorized ''Invalid token'')
          \<or> (err_name err = ''TokenExpiredError''
             \<and> verify_token (token_service K now) key s' = unauthorized ''Token has expired''))"
proof -
  have v: "verify K now s key = Inl TokenExpiredError"
    using assms by (simp add: verify_def)
  then have a: "verify_token (token_service K now) key s = unauthorized ''Token has expired''"
    by (simp add: verify_token_def token_service_def auth_catch_def TokenExpiredError_def)
  have b: "auth_handler key (token_service K now) (Some (''Bearer '' @ s)) =
             verify_token (token_service K now) key s" if "CHR '' '' \<notin> set s"
    using that by (intro auth_handler_bearer bearer_header)
  have c: "(err_name err = ''JsonWebTokenError''
             \<and> verify_token (token_service K now) key s' = unauthorized ''Invalid token'')
          \<or> (err_name err = ''TokenExpiredError''
             \<and> verify_token (token_service K now) key s' = unauthorized ''Token has expired'')"
    if "jwt_verify (token_service K now) s' key = Inl err" for s' err
    using that verify_errors [of K now s' key err]
    by (auto simp: verify_token_def token_service_def auth_catch_def)
  from a b c show ?thesis by (simp add: unauthorized_def)
qed

theorem expired_token_rejected_witness:
  "auth_handler ''s3cret''
          (token_service
             (table_format
                [(''abc'', \<lparr>tok_claims = [(''userId'', JStr ''7''), (''email'', JStr ''a@b.com''),
                                          (''iat'', JNum 100), (''exp'', JNum 3700)],
                           tok_signature = ''s3cret''\<rparr>)]) 3700)
          (Some ''Bearer abc'') = unauthorized ''Token has expired''"
  using expired_token_rejected
    [of "table_format
                [(''abc'', \<lparr>tok_claims = [(''userId'', JStr ''7''), (''email'', JStr ''a@b.com''),
                                          (''iat'', JNum 100), (''exp'', JNum 3700)],
                           tok_signature = ''s3cret''\<rparr>)]"
        "''abc''" 
        "\<lparr>tok_claims = [(''userId'', JStr ''7''), (''email'', JStr ''a@b.com''),
                                          (''iat'', JNum 100), (''exp'', JNum 3700)],
                           tok_signature = ''s3cret''\<rparr>"
        "''s3cret''" 3700 3700]
  by (simp add: table_format_def)

section \<open>Properties of the routes\<close>

lemma validatePassword_value_string: "validatePassword_value N (VStr p) = Inr (validatePassword p)"
  by (simp add: validatePassword_value_def validatePassword_def js_length_def js_less_def
      js_toNumber_def number_less_def)

lemma invalid_has_message:
  "validatePassword_value N v = Inr pv \<Longrightarrow> \<not> isValid pv \<Longrightarrow> \<exists>m. message pv = Some m"
  by (auto simp: validatePassword_value_def split: sum.splits if_splits)

lemma envelope_failure [simp]: "envelope (failure st msg)"
  by (simp add: envelope_def failure_def)

lemma envelope_success [simp]:
  "envelope \<lparr>status = st, body = [(''success'', JBool True), (''message'', m), (''data'', x)]\<rparr>"
  by (simp add: envelope_def)

lemma envelope_weak [simp]:
  "envelope \<lparr>status = st, body = [(''success'', JBool False), (''message'', JStr m)]\<rparr>"
  by (simp add: envelope_def)

lemma envelope_register_catch [simp]: "envelope (register_catch error)"
  by (simp add: register_catch_def)

lemma envelope_register_fields: "envelope (fst (register_fields rounds env name email password d))"
proof (cases "validatePassword_value (env_Number env) password")
  case (Inl error)
  then show ?thesis by (simp add: register_fields_def)
next
  case (Inr pv)
  show ?thesis
  proof (cases "isValid pv")
    case False
    with Inr invalid_has_message [of "env_Number env" password pv] show ?thesis
      by (auto simp: register_fields_def)
  next
    case True
    with Inr show ?thesis
      by (auto simp: register_fields_def split: sum.splits option.splits)
  qed
qed

lemma envelope_register: "envelope (fst (register_handler rounds env req d))"
  by (simp add: register_handler_def envelope_register_fields)

lemma envelope_login: "envelope (login_handler key e env req d)"
  by (auto simp: login_handler_def login_fields_def split: sum.splits option.splits)

lemma envelope_me_handler: "envelope (me_handler env u d)"
  by (auto simp: me_handler_def split: sum.splits option.splits)

lemma envelope_unauthorized: "unauthorized msg = Responded r \<Longrightarrow> envelope r"
  by (auto simp: unauthorized_def envelope_def)

lemma envelope_verify_token: "verify_token jwt key token = Responded r \<Longrightarrow> envelope r"
  by (auto simp: verify_token_def auth_catch_def split: sum.splits if_splits
      dest: envelope_unauthorized)

lemma envelope_auth_handler: "auth_handler key jwt h = Responded r \<Longrightarrow> envelope r"
  by (auto simp: auth_handler_def split: option.splits if_splits list.splits
      dest: envelope_unauthorized envelope_verify_token)

lemma envelope_me_route: "envelope (me_route (auth_handler key) env h d)"
  by (auto simp: me_route_def envelope_me_handler split: gate_outcome.splits
      dest: envelope_auth_handler)

lemma valid_not_empty: "isValid (validatePassword p) \<Longrightarrow> p \<noteq> []"
  by (auto simp: validatePassword_def split: if_splits)

lemma demo_valid: "isValid (validatePassword ''Secure123!'')"
  by code_simp

lemma demo_normalized:
  "trim (toLowerCase ''A@B.com '') = ''a@b.com''"
  "trim (toLowerCase '' a@b.COM'') = ''a@b.com''"
  "trim (toLowerCase ''a@b.com'') = ''a@b.com''"
  "trim (toLowerCase ''nobody@b.com'') = ''nobody@b.com''"
  "trim ''Jo'' = ''Jo''"
  by code_simp+

lemmas demo_defs = register_handler_def register_fields_def login_handler_def login_fields_def
  validatePassword_value_string call_toLowerCase_trim_def call_trim_def
  demo_env_def directory_def dir_findOne_def dir_create_def stub_bcrypt_def Let_def
  userResponse_def failure_def register_catch_def Error_def TypeError_def

lemma demo_register:
  "register_handler 14 (demo_env (stub_jwt (Inr [])) 5)
     \<lparr>body_name = VStr ''Jo'', body_email = VStr ''A@B.com '', body_password = VStr ''Secure123!''\<rparr> []
   = (\<lparr>status = 201,
       body = [(''success'', JBool True), (''message'', JStr ''User registered successfully''),
               (''data'', JObj [(''user'',
                  JObj [(''id'', JStr ''i''), (''name'', JStr ''Jo''), (''email'', JStr ''a@b.com''),
                        (''createdAt'', JDate 5)])])]\<rparr>,
      [\<lparr>doc_id = ''i'', doc_name = ''Jo'', doc_email = ''a@b.com'', doc_password = ''#Secure123!'',
        doc_createdAt = 5, doc_updatedAt = 5\<rparr>])"
  by (simp add: demo_defs demo_valid demo_normalized)

text \<open>
  C9. Every response of the register, login and me routes and every answer of the
  middleware has a top-level boolean \<open>success\<close>; when it is false the response has a
  \<open>message\<close>, when it is true it has a \<open>data\<close> payload. The fields of the request are
  any values.
\<close>

theorem responses_have_envelope:
  "envelope (fst (register_handler rounds env req d))
   \<and> envelope (login_handler key e env req d)
   \<and> envelope (me_route (auth_handler key) env h d)
   \<and> (case auth_handler key jwt h of Responded r \<Rightarrow> envelope r | Next u \<Rightarrow> True)"
  using envelope_auth_handler [of key jwt h]
  by (simp add: envelope_register envelope_login envelope_me_route split: gate_outcome.splits)

theorem responses_have_envelope_witness:
  "envelope (fst (register_handler 14 (demo_env (stub_jwt (Inr [])) 5)
       \<lparr>body_name = VStr ''Jo'', body_email = VStr ''A@B.com '', body_password = VStr ''weak''\<rparr> []))
   \<and> envelope (fst (register_handler 14 (demo_env (stub_jwt (Inr [])) 5)
       \<lparr>body_name = VNum (Finite 123), body_email = VStr ''a@b.com'',
        body_password = VStr ''Secure123!''\<rparr> []))
   \<and> envelope (login_handler ''k'' (Seconds 60) (demo_env (stub_jwt (Inr [])) 5)
       \<lparr>body_name = VUndefined, body_email = VStr ''a@b.com'', body_password = VUndefined\<rparr> [])
   \<and> envelope (me_route (auth_handler ''k'') (demo_env (stub_jwt (Inr [])) 5) (Some ''Token xyz'') [])"
  using responses_have_envelope [of 14 "demo_env (stub_jwt (Inr [])) 5"
      "\<lparr>body_name = VStr ''Jo'', body_email = VStr ''A@B.com '', body_password = VStr ''weak''\<rparr>" "[]"]
    responses_have_envelope [of 14 "demo_env (stub_jwt (Inr [])) 5"
      "\<lparr>body_name = VNum (Finite 123), body_email = VStr ''a@b.com'',
        body_password = VStr ''Secure123!''\<rparr>" "[]"]
    responses_have_envelope [of 14 "demo_env (stub_jwt (Inr [])) 5"
      "\<lparr>body_name = VUndefined, body_email = VStr ''a@b.com'', body_password = VUndefined\<rparr>" "[]"
      "''k''" "Seconds 60" "Some ''Token xyz''"]
  by simp

text \<open>For a password that is a string the two cases of C2 get the same response, when
  the comparison returns false.\<close>

lemma login_string_password:
  assumes "em1 \<noteq> []" "pw1 \<noteq> []" "em2 \<noteq> []" "pw2 \<noteq> []"
    and "findOne (env_User env) (trim (toLowerCase em1)) d = Inr None"
    and "findOne (env_User env) (trim (toLowerCase em2)) d = Inr (Some u)"
    and "bcrypt_compare (env_bcrypt env) (VStr pw2) (doc_password u) = Inr False"
  shows "login_handler key e env \<lparr>body_name = n1, body_email = VStr em1, body_password = VStr pw1\<rparr> d
           = failure 401 ''Invalid email or password''
       \<and> login_handler key e env \<lparr>body_name = n2, body_email = VStr em2, body_password = VStr pw2\<rparr> d
           = failure 401 ''Invalid email or password''"
  using assms by (simp add: login_handler_def login_fields_def call_toLowerCase_trim_def)

text \<open>
  C2. The login handler does not keep the two cases apart for every request: with the
  number 12345 as password, a request whose email the directory does not hold is answered
  401 \<open>Invalid email or password\<close>, and a request whose email it holds is answered 500
  \<open>Internal server error\<close>, because the comparison of the hasher rejects a password
  that is not a string and the catch block answers. The handler checks the password for
  truthiness only.
\<close>

theorem login_number_password_distinguishes:
  "login_handler ''k'' (Seconds 60) (demo_env (stub_jwt (Inr [])) 9)
     \<lparr>body_name = VUndefined, body_email = VStr ''nobody@b.com'',
      body_password = VNum (Finite 12345)\<rparr>
     [\<lparr>doc_id = ''i'', doc_name = ''Jo'', doc_email = ''a@b.com'', doc_password = ''#Secure123!'',
        doc_createdAt = 5, doc_updatedAt = 5\<rparr>]
   = \<lparr>status = 401,
      body = [(''success'', JBool False), (''message'', JStr ''Invalid email or password'')]\<rparr>
   \<and> login_handler ''k'' (Seconds 60) (demo_env (stub_jwt (Inr [])) 9)
     \<lparr>body_name = VUndefined, body_email = VStr ''a@b.com'',
      body_password = VNum (Finite 12345)\<rparr>
     [\<lparr>doc_id = ''i'', doc_name = ''Jo'', doc_email = ''a@b.com'', doc_password = ''#Secure123!'',
        doc_createdAt = 5, doc_updatedAt = 5\<rparr>]
   = \<lparr>status = 500,
      body = [(''success'', JBool False), (''message'', JStr ''Internal server error'')]\<rparr>"
  by (simp add: demo_defs demo_normalized)

theorem login_number_password_distinguishes_witness:
  "login_handler ''k'' (Seconds 60) (demo_env (stub_jwt (Inr [])) 9)
     \<lparr>body_name = VUndefined, body_email = VStr ''nobody@b.com'',
      body_password = VNum (Finite 12345)\<rparr>
     [\<lparr>doc_id = ''i'', doc_name = ''Jo'', doc_email = ''a@b.com'', doc_password = ''#Secure123!'',
        doc_createdAt = 5, doc_updatedAt = 5\<rparr>]
   \<noteq> login_handler ''k'' (Seconds 60) (demo_env (stub_jwt (Inr [])) 9)
     \<lparr>body_name = VUndefined, body_email = VStr ''a@b.com'',
      body_password = VNum (Finite 12345)\<rparr>
     [\<lparr>doc_id = ''i'', doc_name = ''Jo'', doc_email = ''a@b.com'', doc_password = ''#Secure123!'',
        doc_createdAt = 5, doc_updatedAt = 5\<rparr>]"
  using login_number_password_distinguishes by simp

text \<open>
  C5, as stated, fails on four requests with a strong password and an email the directory
  does not hold. With the name \<open>""\<close> no field is absent, and the handler answers 400 for
  missing fields. With the number 123 as name no field is absent, and the handler throws
  at \<open>name.trim()\<close> and answers 500. With a store that cannot be reached, and with a
  hasher that throws, it answers 500. None of them creates an account.
\<close>

theorem register_flow_counterexample:
  "register_handler 14 (demo_env (stub_jwt (Inr [])) 5)
       \<lparr>body_name = VStr [], body_email = VStr ''a@b.com'', body_password = VStr ''Secure123!''\<rparr> []
     = (\<lparr>status = 400,
         body = [(''success'', JBool False),
                 (''message'', JStr ''Name, email, and password are required'')]\<rparr>, [])
   \<and> register_handler 14 (demo_env (stub_jwt (Inr [])) 5)
       \<lparr>body_name = VNum (Finite 123), body_email = VStr ''a@b.com'',
        body_password = VStr ''Secure123!''\<rparr> []
     = (\<lparr>status = 500,
         body = [(''success'', JBool False), (''message'', JStr ''Internal server error'')]\<rparr>, [])
   \<and> register_handler 14 ((demo_env (stub_jwt (Inr [])) 5)\<lparr>env_User := failing_User\<rparr>)
       \<lparr>body_name = VStr ''Jo'', body_email = VStr ''a@b.com'', body_password = VStr ''Secure123!''\<rparr> []
     = (\<lparr>status = 500,
         body = [(''success'', JBool False), (''message'', JStr ''Internal server error'')]\<rparr>, [])
   \<and> register_handler 14 ((demo_env (stub_jwt (Inr [])) 5)\<lparr>env_bcrypt := failing_bcrypt\<rparr>)
       \<lparr>body_name = VStr ''Jo'', body_email = VStr ''a@b.com'', body_password = VStr ''Secure123!''\<rparr> []
     = (\<lparr>status = 500,
         body = [(''success'', JBool False), (''message'', JStr ''Internal server error'')]\<rparr>, [])
   \<and> isValid (validatePassword ''Secure123!'')
   \<and> findOne (env_User (demo_env (stub_jwt (Inr [])) 5)) (trim (toLowerCase ''a@b.com'')) [] = Inr None"
  by (simp add: demo_defs demo_valid demo_normalized failing_User_def failing_bcrypt_def)

text \<open>
  C5 (amended). For a registration request whose fields are each absent or a string, the
  register handler answers 400 for missing fields when the name, the email or the
  password is absent or empty; otherwise 400 with the message of the password policy when
  the password fails it; otherwise 400 \<open>Email already exists\<close> when the lookup of the
  normalized email finds an account; otherwise, when the lookup finds none, the hasher
  returns a hash and the directory creates the account (from the trimmed name, the
  normalized email and the hash), it answers 201 with the id, name, email and creation
  date of the created account and nothing else of it, and the store is the one the
  creation returned.
\<close>

theorem register_flow:
  "(name = [] \<or> email = [] \<or> password = [] \<longrightarrow>
      register_handler rounds env
        \<lparr>body_name = VStr name, body_email = VStr email, body_password = VStr password\<rparr> d =
        (failure 400 ''Name, email, and password are required'', d))
   \<and> (register_handler rounds env \<lparr>body_name = VUndefined, body_email = e0, body_password = p0\<rparr> d =
        (failure 400 ''Name, email, and password are required'', d))
   \<and> (register_handler rounds env \<lparr>body_name = n0, body_email = VUndefined, body_password = p0\<rparr> d =
        (failure 400 ''Name, email, and password are required'', d))
   \<and> (register_handler rounds env \<lparr>body_name = n0, body_email = e0, body_password = VUndefined\<rparr> d =
        (failure 400 ''Name, email, and password are required'', d))
   \<and> (name \<noteq> [] \<and> email \<noteq> [] \<and> password \<noteq> [] \<longrightarrow>
        (\<not> isValid (validatePassword password) \<longrightarrow>
           (\<exists>m. message (validatePassword password) = Some m
              \<and> register_handler rounds env
                  \<lparr>body_name = VStr name, body_email = VStr email, body_password = VStr password\<rparr> d =
                  (failure 400 m, d)))
        \<and> (isValid (validatePassword password) \<longrightarrow>
             (findOne (env_User env) (trim (toLowerCase email)) d = Inr (Some existing) \<longrightarrow>
                register_handler rounds env
                  \<lparr>body_name = VStr name, body_email = VStr email, body_password = VStr password\<rparr> d =
                  (failure 400 ''Email already exists'', d))
             \<and> (findOne (env_User env) (trim (toLowerCase email)) d = Inr None
                  \<and> bcrypt_hash (env_bcrypt env) (VStr password) rounds = Inr hashed
                  \<and> create (env_User env)
                       \<lparr>new_name = trim name, new_email = trim (toLowerCase email),
                        new_password = hashed\<rparr> d = Inr (user, d') \<longrightarrow>
                register_handler rounds env
                  \<lparr>body_name = VStr name, body_email = VStr email, body_password = VStr password\<rparr> d =
                  (\<lparr>status = 201,
                    body = [(''success'', JBool True),
                            (''message'', JStr ''User registered successfully''),
                            (''data'', JObj [(''user'',
                               JObj [(''id'', JStr (doc_id user)), (''name'', JStr (doc_name user)),
                                     (''email'', JStr (doc_email user)),
                                     (''createdAt'', JDate (doc_createdAt user))])])]\<rparr>, d'))))"
  using invalid_has_message [OF validatePassword_value_string, of password]
  by (auto simp: register_handler_def register_fields_def validatePassword_value_string
      call_toLowerCase_trim_def call_trim_def failure_def userResponse_def)

theorem register_flow_witness:
  "register_handler 14 (demo_env (stub_jwt (Inr [])) 5)
     \<lparr>body_name = VStr ''Jo'', body_email = VStr ''A@B.com '', body_password = VStr ''Secure123!''\<rparr> []
   = (\<lparr>status = 201,
       body = [(''success'', JBool True), (''message'', JStr ''User registered successfully''),
               (''data'', JObj [(''user'',
                  JObj [(''id'', JStr ''i''), (''name'', JStr ''Jo''), (''email'', JStr ''a@b.com''),
                        (''createdAt'', JDate 5)])])]\<rparr>,
      [\<lparr>doc_id = ''i'', doc_name = ''Jo'', doc_email = ''a@b.com'', doc_password = ''#Secure123!'',
        doc_createdAt = 5, doc_updatedAt = 5\<rparr>])
   \<and> register_handler 14 (demo_env (stub_jwt (Inr [])) 5)
     \<lparr>body_name = VStr ''Jo'', body_email = VStr ''A@B.com '', body_password = VStr ''secure123!''\<rparr> []
   = (failure 400 ''Password must contain at least one uppercase letter'', [])"
proof -
  have w: "\<not> isValid (validatePassword ''secure123!'')"
     "message (validatePassword ''secure123!'') = Some ''Password must contain at least one uppercase letter''"
    by code_simp+
  have f: "findOne (env_User (demo_env (stub_jwt (Inr [])) 5)) (trim (toLowerCase ''A@B.com '')) [] = Inr None"
    by (simp add: demo_env_def directory_def dir_findOne_def)
  have h: "bcrypt_hash (env_bcrypt (demo_env (stub_jwt (Inr [])) 5)) (VStr ''Secure123!'') 14 = Inr ''#Secure123!''"
    by (simp add: demo_env_def stub_bcrypt_def)
  have c: "create (env_User (demo_env (stub_jwt (Inr [])) 5))
             \<lparr>new_name = trim ''Jo'', new_email = trim (toLowerCase ''A@B.com ''),
              new_password = ''#Secure123!''\<rparr> [] =
           Inr (\<lparr>doc_id = ''i'', doc_name = ''Jo'', doc_email = ''a@b.com'',
                 doc_password = ''#Secure123!'', doc_createdAt = 5, doc_updatedAt = 5\<rparr>,
                [\<lparr>doc_id = ''i'', doc_name = ''Jo'', doc_email = ''a@b.com'',
                 doc_password = ''#Secure123!'', doc_createdAt = 5, doc_updatedAt = 5\<rparr>])"
    by (simp add: demo_env_def directory_def dir_create_def demo_normalized Let_def)
  show ?thesis
    using register_flow [where name = "''Jo''" and email = "''A@B.com ''" and password = "''Secure123!''"
        and rounds = 14 and env = "demo_env (stub_jwt (Inr [])) 5" and d = "[]"
        and hashed = "''#Secure123!''"
        and user = "\<lparr>doc_id = ''i'', doc_name = ''Jo'', doc_email = ''a@b.com'',
                 doc_password = ''#Secure123!'', doc_createdAt = 5, doc_updatedAt = 5\<rparr>"
        and d' = "[\<lparr>doc_id = ''i'', doc_name = ''Jo'', doc_email = ''a@b.com'',
                 doc_password = ''#Secure123!'', doc_createdAt = 5, doc_updatedAt = 5\<rparr>]"]
      register_flow [where name = "''Jo''" and email = "''A@B.com ''" and password = "''secure123!''"
        and rounds = 14 and env = "demo_env (stub_jwt (Inr [])) 5" and d = "[]"]
      demo_valid w f h c
    by simp
qed

subsection \<open>Normalization of the email\<close>

lemma lower_idem: "toLowerCase_char (toLowerCase_char c) = toLowerCase_char c"
  by (auto simp: toLowerCase_char_def Let_def)

lemma white_lower: "is_white (toLowerCase_char c) = is_white c"
  by (auto simp: toLowerCase_char_def Let_def is_white_def)

lemma toLowerCase_idem: "toLowerCase (toLowerCase s) = toLowerCase s"
  by (simp add: toLowerCase_def lower_idem)

lemma toLowerCase_trim: "toLowerCase (trim s) = trim (toLowerCase s)"
  by (simp add: toLowerCase_def trim_def rev_map dropWhile_map comp_def white_lower)

lemma trim_idem: "trim (trim s) = trim s"
  unfolding trim_def
  by (metis (no_types, lifting) ext dropWhile_eq_Nil_conv
    dropWhile_eq_self_iff dropWhile_last hd_dropWhile hd_rev rev_is_Nil_conv
    rev_swap)

lemma normalize_idem: "trim (toLowerCase (trim (toLowerCase s))) = trim (toLowerCase s)"
  by (simp add: toLowerCase_trim toLowerCase_idem trim_idem)

lemma find_snoc: "find P (xs @ [x]) = (case find P xs of None \<Rightarrow> (if P x then Some x else None) | Some y \<Rightarrow> Some y)"
  by (induction xs) auto

lemma find_None_list_ex: "find P xs = None \<longleftrightarrow> \<not> list_ex P xs"
  by (induction xs) auto

lemma register_directory_cases:
  assumes "env_User env = directory gen now"
  shows "snd (register_handler rounds env req d) = d
       \<or> (\<exists>u e. snd (register_handler rounds env req d) = d @ [u]
              \<and> doc_email u = trim (toLowerCase e))"
  using assms
  by (auto simp: register_handler_def register_fields_def directory_def dir_create_def
      dir_findOne_def Let_def call_toLowerCase_trim_def
      split: sum.splits option.splits if_splits jvalue.splits)

lemma register_directory_created:
  assumes "env_User env = directory gen now"
    and "register_handler rounds env
           \<lparr>body_name = VStr n, body_email = VStr e, body_password = VStr p\<rparr> d = (r, d1)"
    and "status r = 201"
  shows "\<exists>u. d1 = d @ [u] \<and> doc_email u = trim (toLowerCase e) \<and> doc_name u = trim n
           \<and> find (\<lambda>u. doc_email u = trim (toLowerCase e)) d = None"
  using assms
  by (auto simp: register_handler_def register_fields_def directory_def dir_create_def
      dir_findOne_def Let_def failure_def register_catch_def call_toLowerCase_trim_def
      call_trim_def validatePassword_value_string
      split: sum.splits option.splits if_splits)

text \<open>
  C6. Over the directory of the specification: the register handler keeps every stored
  email in normalized form (lowercased, then trimmed); after a registration that
  answered 201, a second registration whose email has the same normalized form (with a
  name and a strong password) is answered 400 \<open>Email already exists\<close> and stores
  nothing; and the lookup of the login handler with such an email finds the account
  that was registered, so that the login goes on to compare the password.
\<close>

theorem email_normalized_everywhere:
  assumes "env_User env = directory gen now" and "env_User env' = directory gen' now'"
  shows "((\<forall>u \<in> set d. trim (toLowerCase (doc_email u)) = doc_email u) \<longrightarrow>
           (\<forall>u \<in> set (snd (register_handler rounds env req d)).
              trim (toLowerCase (doc_email u)) = doc_email u))
     \<and> (register_handler rounds env
           \<lparr>body_name = VStr n1, body_email = VStr e1, body_password = VStr p1\<rparr> d = (r1, d1)
         \<and> status r1 = 201
         \<and> trim (toLowerCase e2) = trim (toLowerCase e1)
         \<and> n2 \<noteq> [] \<and> e2 \<noteq> [] \<and> isValid (validatePassword p2) \<longrightarrow>
           register_handler rounds' env'
             \<lparr>body_name = VStr n2, body_email = VStr e2, body_password = VStr p2\<rparr> d1 =
             (failure 400 ''Email already exists'', d1)
           \<and> (\<exists>u \<in> set d1. doc_email u = trim (toLowerCase e1)
                \<and> findOne (env_User env') (trim (toLowerCase e2)) d1 = Inr (Some u)
                \<and> login_fields key ex env' (VStr e2) pw d1 =
                    (case bcrypt_compare (env_bcrypt env') pw (doc_password u) of
                       Inl error \<Rightarrow> failure 500 ''Internal server error''
                     | Inr ok \<Rightarrow>
                         if \<not> ok then failure 401 ''Invalid email or password''
                         else (case issue_token (env_jwt env') key ex u of
                                 Inl error \<Rightarrow> failure 500 ''Internal server error''
                               | Inr tok \<Rightarrow>
                                   \<lparr>status = 200,
                                    body = [(''success'', JBool True),
                                            (''message'', JStr ''Login successful''),
                                            (''data'', JObj [(''token'', JStr tok),
                                                             (''user'', userResponse u)])]\<rparr>))))"
proof (intro conjI impI)
  assume inv: "\<forall>u \<in> set d. trim (toLowerCase (doc_email u)) = doc_email u"
  from register_directory_cases [OF assms(1), of rounds req d]
  show "\<forall>u \<in> set (snd (register_handler rounds env req d)).
          trim (toLowerCase (doc_email u)) = doc_email u"
    using inv by (auto simp: normalize_idem)
next
  assume a: "register_handler rounds env
           \<lparr>body_name = VStr n1, body_email = VStr e1, body_password = VStr p1\<rparr> d = (r1, d1)
         \<and> status r1 = 201
         \<and> trim (toLowerCase e2) = trim (toLowerCase e1)
         \<and> n2 \<noteq> [] \<and> e2 \<noteq> [] \<and> isValid (validatePassword p2)"
  then obtain u where u: "d1 = d @ [u]" "doc_email u = trim (toLowerCase e1)"
      "find (\<lambda>u. doc_email u = trim (toLowerCase e1)) d = None"
    using register_directory_created [OF assms(1), of rounds n1 e1 p1 d r1 d1] by auto
  from u a have f: "findOne (env_User env') (trim (toLowerCase e2)) d1 = Inr (Some u)"
    by (simp add: assms(2) directory_def dir_findOne_def find_snoc)
  from a have "p2 \<noteq> []" by (auto dest: valid_not_empty)
  with a f show "register_handler rounds' env'
             \<lparr>body_name = VStr n2, body_email = VStr e2, body_password = VStr p2\<rparr> d1 =
             (failure 400 ''Email already exists'', d1)"
    by (simp add: register_handler_def register_fields_def validatePassword_value_string
        call_toLowerCase_trim_def)
  from u f show "\<exists>u \<in> set d1. doc_email u = trim (toLowerCase e1)
                \<and> findOne (env_User env') (trim (toLowerCase e2)) d1 = Inr (Some u)
                \<and> login_fields key ex env' (VStr e2) pw d1 =
                    (case bcrypt_compare (env_bcrypt env') pw (doc_password u) of
                       Inl error \<Rightarrow> failure 500 ''Internal server error''
                     | Inr ok \<Rightarrow>
                         if \<not> ok then failure 401 ''Invalid email or password''
                         else (case issue_token (env_jwt env') key ex u of
                                 Inl error \<Rightarrow> failure 500 ''Internal server error''
                               | Inr tok \<Rightarrow>
                                   \<lparr>status = 200,
                                    body = [(''success'', JBool True),
                                            (''message'', JStr ''Login successful''),
                                            (''data'', JObj [(''token'', JStr tok),
                                                             (''user'', userResponse u)])]\<rparr>))"
    by (intro bexI [of _ u]) (simp_all add: login_fields_def call_toLowerCase_trim_def)
qed

theorem email_normalized_everywhere_witness:
  "register_handler 14 (demo_env (stub_jwt (Inr [])) 5)
     \<lparr>body_name = VStr ''Jo'', body_email = VStr ''A@B.com '', body_password = VStr ''Secure123!''\<rparr> []
   = (\<lparr>status = 201,
       body = [(''success'', JBool True), (''message'', JStr ''User registered successfully''),
               (''data'', JObj [(''user'',
                  JObj [(''id'', JStr ''i''), (''name'', JStr ''Jo''), (''email'', JStr ''a@b.com''),
                        (''createdAt'', JDate 5)])])]\<rparr>,
      [\<lparr>doc_id = ''i'', doc_name = ''Jo'', doc_email = ''a@b.com'', doc_password = ''#Secure123!'',
        doc_createdAt = 5, doc_updatedAt = 5\<rparr>])
   \<and> register_handler 14 (demo_env (stub_jwt (Inr [])) 9)
     \<lparr>body_name = VStr ''Joe'', body_email = VStr '' a@b.COM'', body_password = VStr ''Secure123!''\<rparr>
     [\<lparr>doc_id = ''i'', doc_name = ''Jo'', doc_email = ''a@b.com'', doc_password = ''#Secure123!'',
        doc_createdAt = 5, doc_updatedAt = 5\<rparr>]
   = (failure 400 ''Email already exists'',
      [\<lparr>doc_id = ''i'', doc_name = ''Jo'', doc_email = ''a@b.com'', doc_password = ''#Secure123!'',
        doc_createdAt = 5, doc_updatedAt = 5\<rparr>])"
proof -
  have n: "trim (toLowerCase '' a@b.COM'') = trim (toLowerCase ''A@B.com '')"
    by (simp add: demo_normalized)
  have v: "isValid (validatePassword ''Secure123!'')" by (rule demo_valid)
  have e: "env_User (demo_env (stub_jwt (Inr [])) 5) =
             directory (\<lambda>d. replicate (Suc (length d)) CHR ''i'') 5"
          "env_User (demo_env (stub_jwt (Inr [])) 9) =
             directory (\<lambda>d. replicate (Suc (length d)) CHR ''i'') 9"
    by (simp_all add: demo_env_def)
  show ?thesis
    using email_normalized_everywhere [OF e,
        where d = "[]" and rounds = 14
          and req = "\<lparr>body_name = VUndefined, body_email = VUndefined, body_password = VUndefined\<rparr>"
          and ?n1.0 = "''Jo''" and ?e1.0 = "''A@B.com ''" and ?p1.0 = "''Secure123!''"
          and ?r1.0 = "\<lparr>status = 201,
               body = [(''success'', JBool True), (''message'', JStr ''User registered successfully''),
                 (''data'', JObj [(''user'',
                  JObj [(''id'', JStr ''i''), (''name'', JStr ''Jo''), (''email'', JStr ''a@b.com''),
                        (''createdAt'', JDate 5)])])]\<rparr>"
          and ?d1.0 = "[\<lparr>doc_id = ''i'', doc_name = ''Jo'', doc_email = ''a@b.com'',
                 doc_password = ''#Secure123!'', doc_createdAt = 5, doc_updatedAt = 5\<rparr>]"
          and ?e2.0 = "'' a@b.COM''" and ?n2.0 = "''Joe''" and ?p2.0 = "''Secure123!''"
          and rounds' = 14 and key = "''k''" and ex = "Seconds 1" and pw = "VStr ''x''"]
      demo_register n v
    by simp
qed

end
